theory Spec2Isabelle
  imports Complex_Main "HOL-Library.Char_ord" "HOL-Library.List_Lexorder" "HOL-Library.AList"
begin

section \<open>Shared data: JSON values, exceptions, library functions\<close>

text \<open>
  Values of type \<open>Any\<close> and the contents of the JSON files are JSON values. A Python
  \<open>dict\<close> with string keys is an association list: \<open>map_of\<close> reads a key,
  \<open>AList.update\<close> stores one (in place when the key is there, at the end otherwise, which
  is the insertion order of a Python dict). Python floats are modelled as reals.
\<close>

datatype json =
    JNull
  | JBool bool
  | JNum real
  | JStr string
  | JArr "json list"
  | JObj "(string \<times> json) list"

type_synonym dict = "(string \<times> json) list"

text \<open>The exceptions the modelled code can raise.\<close>

datatype exn = RecursionError | TypeError | KeyError | AttributeError | ValueError

text \<open>
  Functions of the Python library that the code calls and whose result is not decided by
  this repository: \<open>Path(p).stem\<close>, \<open>str(v)\<close> inside an f-string, and the SHA-256 hex
  digest of a string.
\<close>

record pylib =
  stem :: "string \<Rightarrow> string"
  str_of :: "json \<Rightarrow> string"
  sha256_hex :: "string \<Rightarrow> string"

section \<open>braid_connector.py\<close>

text \<open>
  Document nodes are Python objects compared by identity, and links hold references to
  them, so nodes live in a heap of objects addressed by references.
\<close>

type_synonym ref = nat

record DocumentLink =
  source :: ref
  target :: ref
  link_type :: string
  weight :: real
  link_metadata :: dict

record DocumentNode =
  node_id :: string
  path :: string
  node_metadata :: dict
  links :: "DocumentLink list"
  embeddings :: "(string \<times> real list) list"
  tags :: "string set"
  title :: json
  doc_type :: json

type_synonym heap = "ref \<rightharpoonup> DocumentNode"

text \<open>\<open>metadata or {}\<close>: \<open>None\<close> and the empty dict both give the empty dict.\<close>

definition or_empty :: "dict option \<Rightarrow> dict" where
  "or_empty md = (case md of None \<Rightarrow> [] | Some m \<Rightarrow> m)"

text \<open>\<open>DocumentNode._generate_id\<close>\<close>

definition generate_id :: "pylib \<Rightarrow> DocumentNode \<Rightarrow> string" where
  "generate_id L n =
     sha256_hex L (path n @ '':'' @ str_of L (title n) @ '':'' @ str_of L (doc_type n))"

text \<open>\<open>DocumentNode.__init__\<close>: the tags of a new node are the empty set.\<close>

definition DocumentNode_init :: "pylib \<Rightarrow> string \<Rightarrow> string \<Rightarrow> dict option \<Rightarrow> DocumentNode" where
  "DocumentNode_init L doc_id doc_path md =
     (let m = or_empty md;
          self = \<lparr> node_id = doc_id, path = doc_path, node_metadata = m, links = [],
                   embeddings = [], tags = {},
                   title = (case map_of m ''title'' of Some t \<Rightarrow> t | None \<Rightarrow> JStr (stem L doc_path)),
                   doc_type = (case map_of m ''type'' of Some t \<Rightarrow> t | None \<Rightarrow> JStr ''document'') \<rparr>
      in if doc_id = [] then self\<lparr> node_id := generate_id L self \<rparr> else self)"

text \<open>\<open>target.links.append(link)\<close> on the object at a reference.\<close>

definition append_link :: "heap \<Rightarrow> ref \<Rightarrow> DocumentLink \<Rightarrow> heap" where
  "append_link h r l =
     (case h r of None \<Rightarrow> h | Some n \<Rightarrow> h(r \<mapsto> n\<lparr> links := links n @ [l] \<rparr>))"

text \<open>
  \<open>DocumentLink.__init__\<close>. The constructor calls itself for a symmetric link type; the
  first argument is the number of stack frames Python still allows, and running out of
  them is Python's \<open>RecursionError\<close>. The reverse link receives the caller's raw
  \<open>weight\<close> and \<open>metadata\<close>, and is appended to the target's links only after its own
  construction has returned.
\<close>

fun DocumentLink_init ::
  "nat \<Rightarrow> heap \<Rightarrow> ref \<Rightarrow> ref \<Rightarrow> string \<Rightarrow> real \<Rightarrow> dict option \<Rightarrow> exn + (DocumentLink \<times> heap)" where
  "DocumentLink_init 0 h src tgt lt w md = Inl RecursionError"
| "DocumentLink_init (Suc d) h src tgt lt w md =
     (let self = \<lparr> source = src, target = tgt, link_type = lt,
                   weight = max 0 (min 1 w), link_metadata = or_empty md \<rparr>
      in if lt \<in> set [''similar_to'', ''related_to'']
         then (case DocumentLink_init d h tgt src lt w md of
                 Inl e \<Rightarrow> Inl e
               | Inr (reverse_link, h') \<Rightarrow> Inr (self, append_link h' tgt reverse_link))
         else Inr (self, h))"

text \<open>
  \<open>DocumentNode.add_link\<close>, on the node at reference \<open>self\<close>. An exception of the
  constructor leaves the heap as it was.
\<close>

definition add_link ::
  "nat \<Rightarrow> heap \<Rightarrow> ref \<Rightarrow> ref \<Rightarrow> string \<Rightarrow> real \<Rightarrow> dict option \<Rightarrow> (exn + DocumentLink) \<times> heap" where
  "add_link d h self tgt lt w md =
     (case DocumentLink_init d h self tgt lt w (Some (or_empty md)) of
        Inl e \<Rightarrow> (Inl e, h)
      | Inr (link, h') \<Rightarrow> (Inr link, append_link h' self link))"

record SemanticBraid =
  heap :: heap
  next_ref :: ref
  nodes :: "string \<rightharpoonup> ref"
  link_types :: "string set"
  tag_index :: "string \<rightharpoonup> ref set"

definition SemanticBraid_init :: SemanticBraid where
  "SemanticBraid_init =
     \<lparr> heap = Map.empty, next_ref = 0, nodes = Map.empty, link_types = {},
       tag_index = Map.empty \<rparr>"

text \<open>
  \<open>SemanticBraid.add_document\<close>: the new node object gets a fresh reference; the loop over
  \<open>node.tags\<close> adds the node to the index entry of each of its tags (\<open>tag_index\<close> is a
  \<open>defaultdict(set)\<close>).
\<close>

definition add_document ::
  "pylib \<Rightarrow> SemanticBraid \<Rightarrow> string \<Rightarrow> string \<Rightarrow> dict option \<Rightarrow> ref \<times> SemanticBraid" where
  "add_document L b doc_id doc_path md =
     (let node = DocumentNode_init L doc_id doc_path md;
          r = next_ref b
      in (r, b\<lparr> heap := (heap b)(r \<mapsto> node),
                next_ref := Suc r,
                nodes := (nodes b)(doc_id \<mapsto> r),
                tag_index := (\<lambda>t. if t \<in> tags node
                                   then Some (insert r (case tag_index b t of None \<Rightarrow> {} | Some s \<Rightarrow> s))
                                   else tag_index b t) \<rparr>))"

definition get_document :: "SemanticBraid \<Rightarrow> string \<Rightarrow> ref option" where
  "get_document b doc_id = nodes b doc_id"

text \<open>\<open>str.lower\<close> on ASCII letters; other bytes are left as they are.\<close>

definition lower_char :: "char \<Rightarrow> char" where
  "lower_char c =
     (if CHR ''A'' \<le> c \<and> c \<le> CHR ''Z'' then char_of (of_char c + (32::nat)) else c)"

definition lower :: "string \<Rightarrow> string" where
  "lower s = map lower_char s"

definition find_documents_by_tag :: "SemanticBraid \<Rightarrow> string \<Rightarrow> ref set" where
  "find_documents_by_tag b tag = (case tag_index b (lower tag) of None \<Rightarrow> {} | Some s \<Rightarrow> s)"

text \<open>
  \<open>SemanticBraid.link_documents\<close>. The link type is registered before the link is
  constructed, so it stays registered when the construction raises.
\<close>

definition link_documents ::
  "nat \<Rightarrow> SemanticBraid \<Rightarrow> string \<Rightarrow> string \<Rightarrow> string \<Rightarrow> real \<Rightarrow> dict option
     \<Rightarrow> (exn + DocumentLink option) \<times> SemanticBraid" where
  "link_documents d b source_id target_id lt w md =
     (case (get_document b source_id, get_document b target_id) of
        (Some src, Some tgt) \<Rightarrow>
          (let b' = b\<lparr> link_types := insert lt (link_types b) \<rparr>
           in case add_link d (heap b') src tgt lt w md of
                (Inl e, h') \<Rightarrow> (Inl e, b'\<lparr> heap := h' \<rparr>)
              | (Inr link, h') \<Rightarrow> (Inr (Some link), b'\<lparr> heap := h' \<rparr>))
      | _ \<Rightarrow> (Inr None, b))"

text \<open>
  \<open>SemanticBraid.find_related_documents\<close>. \<open>sorted(..., reverse=True)\<close> is stable, as is
  \<open>sort_key\<close> on the negated weight. The function assigns to no attribute; the model
  returns the braid next to the result to say so.
\<close>

definition related_of :: "DocumentNode \<Rightarrow> string option \<Rightarrow> real \<Rightarrow> (ref \<times> real) list" where
  "related_of node lt min_weight =
     map (\<lambda>l. (target l, weight l))
       (filter (\<lambda>l. (lt = None \<or> Some (link_type l) = lt) \<and> weight l \<ge> min_weight) (links node))"

definition find_related_documents ::
  "SemanticBraid \<Rightarrow> string \<Rightarrow> string option \<Rightarrow> real \<Rightarrow> (ref \<times> real) list \<times> SemanticBraid" where
  "find_related_documents b doc_id lt min_weight =
     (case get_document b doc_id of
        None \<Rightarrow> ([], b)
      | Some r \<Rightarrow>
          (case heap b r of
             None \<Rightarrow> ([], b)
           | Some node \<Rightarrow> (sort_key (\<lambda>x. - snd x) (related_of node lt min_weight), b)))"

text \<open>
  \<open>SemanticBraid.get_shortest_path\<close>. \<open>scan_links\<close> is the \<open>for\<close> loop over the links of
  the dequeued node: it returns the path when it meets the target, and the grown visited
  set and queue otherwise. \<open>bfs\<close> is the \<open>while\<close> loop; \<open>max_hops\<close> goes down by one at
  the end of each iteration.
\<close>

fun scan_links ::
  "ref \<Rightarrow> ref list \<Rightarrow> DocumentLink list \<Rightarrow> ref set \<Rightarrow> (ref \<times> ref list) list
     \<Rightarrow> ref list + (ref set \<times> (ref \<times> ref list) list)" where
  "scan_links tgt p [] visited queue = Inr (visited, queue)"
| "scan_links tgt p (l # ls) visited queue =
     (if target l \<notin> visited
      then (if target l = tgt then Inl (p @ [tgt])
            else scan_links tgt p ls (insert (target l) visited) (queue @ [(target l, p @ [target l])]))
      else scan_links tgt p ls visited queue)"

definition links_of :: "heap \<Rightarrow> ref \<Rightarrow> DocumentLink list" where
  "links_of h r = (case h r of None \<Rightarrow> [] | Some n \<Rightarrow> links n)"

function bfs ::
  "heap \<Rightarrow> ref \<Rightarrow> ref set \<Rightarrow> (ref \<times> ref list) list \<Rightarrow> int \<Rightarrow> ref list option" where
  "bfs h tgt visited queue max_hops =
     (case queue of
        [] \<Rightarrow> None
      | (current, p) # rest \<Rightarrow>
          if max_hops \<ge> 0
          then (case scan_links tgt p (links_of h current) visited rest of
                  Inl found \<Rightarrow> Some found
                | Inr (visited', queue') \<Rightarrow> bfs h tgt visited' queue' (max_hops - 1))
          else None)"
  by pat_completeness auto
termination
  by (relation "measure (\<lambda>(h, tgt, visited, queue, max_hops). nat (max_hops + 1))") auto

definition get_shortest_path ::
  "SemanticBraid \<Rightarrow> string \<Rightarrow> string \<Rightarrow> int \<Rightarrow> ref list option" where
  "get_shortest_path b source_id target_id max_hops =
     (case (get_document b source_id, get_document b target_id) of
        (Some src, Some tgt) \<Rightarrow>
          if src = tgt then Some [src]
          else bfs (heap b) tgt {src} [(src, [src])] max_hops
      | _ \<Rightarrow> None)"

declare bfs.simps [simp del]

section \<open>execution_registry.py\<close>

datatype ExecutionStatus = PENDING | RUNNING | COMPLETED | FAILED | CANCELLED

record ExecutionRecord =
  execution_id :: string
  kernel_name :: string
  doc_path :: string
  start_time :: real
  end_time :: "real option"
  status :: ExecutionStatus
  input_metadata :: dict
  output_value :: "dict option"
  error :: "string option"
  context_map :: dict
  quantum_seal :: "string option"
  parent_execution_id :: "string option"
  child_executions :: "string list"
  metrics :: dict

text \<open>
  The \<open>duration\<close> property: \<open>if self.end_time and self.start_time\<close> is false for
  \<open>None\<close> and for \<open>0.0\<close>.
\<close>

definition duration :: "ExecutionRecord \<Rightarrow> real option" where
  "duration r =
     (case end_time r of
        None \<Rightarrow> None
      | Some e \<Rightarrow> if e \<noteq> 0 \<and> start_time r \<noteq> 0 then Some (e - start_time r) else None)"

fun status_name :: "ExecutionStatus \<Rightarrow> string" where
  "status_name PENDING = ''PENDING''"
| "status_name RUNNING = ''RUNNING''"
| "status_name COMPLETED = ''COMPLETED''"
| "status_name FAILED = ''FAILED''"
| "status_name CANCELLED = ''CANCELLED''"

text \<open>\<open>ExecutionStatus[name]\<close>; \<open>None\<close> stands for the \<open>KeyError\<close>.\<close>

definition status_of_name :: "string \<Rightarrow> ExecutionStatus option" where
  "status_of_name s =
     (if s = ''PENDING'' then Some PENDING
      else if s = ''RUNNING'' then Some RUNNING
      else if s = ''COMPLETED'' then Some COMPLETED
      else if s = ''FAILED'' then Some FAILED
      else if s = ''CANCELLED'' then Some CANCELLED
      else None)"

definition opt_json :: "('a \<Rightarrow> json) \<Rightarrow> 'a option \<Rightarrow> json" where
  "opt_json f x = (case x of None \<Rightarrow> JNull | Some v \<Rightarrow> f v)"

text \<open>
  \<open>ExecutionRecord.to_dict\<close>: \<open>asdict\<close> gives the fourteen fields in declaration order, the
  status is replaced by its name, and the key \<open>duration\<close> is added.
\<close>

definition to_dict :: "ExecutionRecord \<Rightarrow> dict" where
  "to_dict r =
     [(''execution_id'', JStr (execution_id r)),
      (''kernel_name'', JStr (kernel_name r)),
      (''doc_path'', JStr (doc_path r)),
      (''start_time'', JNum (start_time r)),
      (''end_time'', opt_json JNum (end_time r)),
      (''status'', JStr (status_name (status r))),
      (''input_metadata'', JObj (input_metadata r)),
      (''output'', opt_json JObj (output_value r)),
      (''error'', opt_json JStr (error r)),
      (''context'', JObj (context_map r)),
      (''quantum_seal'', opt_json JStr (quantum_seal r)),
      (''parent_execution_id'', opt_json JStr (parent_execution_id r)),
      (''child_executions'', JArr (map JStr (child_executions r))),
      (''metrics'', JObj (metrics r)),
      (''duration'', opt_json JNum (duration r))]"

text \<open>The parameters of the generated \<open>ExecutionRecord.__init__\<close>, and those without default.\<close>

definition field_names :: "string list" where
  "field_names =
     [''execution_id'', ''kernel_name'', ''doc_path'', ''start_time'', ''end_time'', ''status'',
      ''input_metadata'', ''output'', ''error'', ''context'', ''quantum_seal'',
      ''parent_execution_id'', ''child_executions'', ''metrics'']"

definition required_fields :: "string list" where
  "required_fields = [''execution_id'', ''kernel_name'', ''doc_path'', ''start_time'']"

text \<open>
  Reading a JSON value at a declared field type. The dataclass itself checks no types and
  would store any value; a value outside the declared type has no counterpart in the typed
  record, and the decoders answer \<open>None\<close> for it.
\<close>

fun dec_str :: "json \<Rightarrow> string option" where
  "dec_str (JStr s) = Some s"
| "dec_str _ = None"

fun dec_num :: "json \<Rightarrow> real option" where
  "dec_num (JNum x) = Some x"
| "dec_num _ = None"

fun dec_dict :: "json \<Rightarrow> dict option" where
  "dec_dict (JObj d) = Some d"
| "dec_dict _ = None"

fun dec_opt :: "(json \<Rightarrow> 'a option) \<Rightarrow> json \<Rightarrow> 'a option option" where
  "dec_opt f JNull = Some None"
| "dec_opt f v = map_option Some (f v)"

fun dec_str_list :: "json \<Rightarrow> string list option" where
  "dec_str_list (JArr xs) =
     (if list_all (\<lambda>x. dec_str x \<noteq> None) xs then Some (map (\<lambda>x. the (dec_str x)) xs) else None)"
| "dec_str_list _ = None"

definition field :: "dict \<Rightarrow> string \<Rightarrow> (json \<Rightarrow> 'a option) \<Rightarrow> 'a \<Rightarrow> 'a option" where
  "field d k dec dflt = (case map_of d k of None \<Rightarrow> Some dflt | Some v \<Rightarrow> dec v)"

text \<open>
  \<open>ExecutionRecord.from_dict\<close>. First the status name is looked up (\<open>KeyError\<close> for an
  unknown name), then \<open>cls(**data)\<close> binds the keys to the parameters of \<open>__init__\<close>:
  a key that is no parameter, or a missing parameter without default, is a \<open>TypeError\<close>.
  \<open>ValueError\<close> is not raised by Python here: it marks a value outside the declared
  field types, which the typed record cannot hold.
\<close>

definition from_dict :: "dict \<Rightarrow> exn + ExecutionRecord" where
  "from_dict data =
     (case (case map_of data ''status'' of
              Some (JStr s) \<Rightarrow> (case status_of_name s of None \<Rightarrow> Inl KeyError | Some st \<Rightarrow> Inr (Some st))
            | Some _ \<Rightarrow> Inr None
            | None \<Rightarrow> Inr (Some PENDING)) of
        Inl e \<Rightarrow> Inl e
      | Inr st \<Rightarrow>
          if \<not> list_all (\<lambda>k. k \<in> set field_names) (map fst data) then Inl TypeError
          else if \<not> list_all (\<lambda>k. k \<in> set (map fst data)) required_fields then Inl TypeError
          else
            (case (field data ''execution_id'' dec_str [], field data ''kernel_name'' dec_str [],
                   field data ''doc_path'' dec_str [], field data ''start_time'' dec_num 0,
                   field data ''end_time'' (dec_opt dec_num) None, st,
                   field data ''input_metadata'' dec_dict [],
                   field data ''output'' (dec_opt dec_dict) None,
                   field data ''error'' (dec_opt dec_str) None,
                   field data ''context'' dec_dict [],
                   field data ''quantum_seal'' (dec_opt dec_str) None,
                   field data ''parent_execution_id'' (dec_opt dec_str) None,
                   field data ''child_executions'' dec_str_list [],
                   field data ''metrics'' dec_dict []) of
               (Some i, Some k, Some p, Some s, Some e, Some st', Some im, Some out, Some err,
                Some c, Some q, Some par, Some ch, Some m) \<Rightarrow>
                 Inr \<lparr> execution_id = i, kernel_name = k, doc_path = p, start_time = s,
                       end_time = e, status = st', input_metadata = im, output_value = out,
                       error = err, context_map = c, quantum_seal = q,
                       parent_execution_id = par, child_executions = ch, metrics = m \<rparr>
             | _ \<Rightarrow> Inl ValueError))"

text \<open>
  A file is absent, or holds text that is not JSON, or holds a JSON value. Writing stores
  the value and reading returns it: \<open>json.dump\<close> followed by \<open>json.load\<close> is the identity
  on these values.
\<close>

datatype file_state = Missing | Corrupt | Content json

record ExecutionRegistry =
  records :: "(string \<times> ExecutionRecord) list"
  storage_path :: "string option"
  next_execution_id :: int

text \<open>\<open>execution_id.split('-')[-1]\<close>: what follows the last \<open>-\<close>.\<close>

definition last_segment :: "string \<Rightarrow> string" where
  "last_segment s = rev (takeWhile (\<lambda>c. c \<noteq> CHR ''-'') (rev s))"

text \<open>
  The body of the \<open>for\<close> loop of \<open>_load_records\<close> on one element. \<open>int16\<close> is Python's
  \<open>int(s, 16)\<close>, with \<open>None\<close> for its \<open>ValueError\<close>. Every exception is logged and the
  element skipped; an element that is no dict raises in \<open>from_dict\<close>. A dict with a value
  outside the declared field types is skipped here as well, where the code would load it
  as it is: the typed record cannot hold it.
\<close>

definition load_record :: "(string \<Rightarrow> int option) \<Rightarrow> json \<Rightarrow> ExecutionRegistry \<Rightarrow> ExecutionRegistry" where
  "load_record int16 record_data reg =
     (case record_data of
        JObj data \<Rightarrow>
          (case from_dict data of
             Inl e \<Rightarrow> reg
           | Inr r \<Rightarrow>
               (let reg' = reg\<lparr> records := AList.update (execution_id r) r (records reg) \<rparr>
                in case int16 (last_segment (execution_id r)) of
                     None \<Rightarrow> reg'
                   | Some record_num \<Rightarrow>
                       reg'\<lparr> next_execution_id := max (next_execution_id reg') (record_num + 1) \<rparr>))
      | _ \<Rightarrow> reg)"

text \<open>
  \<open>ExecutionRegistry._load_records\<close>. A \<open>records\<close> value that is a dict or a string is
  iterated over its keys or characters, each of which fails in \<open>from_dict\<close>; any other
  value that is no list raises, which the outer handler logs.
\<close>

definition load_records :: "(string \<Rightarrow> int option) \<Rightarrow> file_state \<Rightarrow> ExecutionRegistry \<Rightarrow> ExecutionRegistry" where
  "load_records int16 f reg =
     (case storage_path reg of
        None \<Rightarrow> reg
      | Some p \<Rightarrow>
          (case f of
             Content (JObj data) \<Rightarrow>
               (case map_of data ''records'' of
                  Some (JArr rs) \<Rightarrow> fold (load_record int16) rs reg
                | _ \<Rightarrow> reg)
           | _ \<Rightarrow> reg))"

text \<open>
  \<open>ExecutionRegistry.__init__\<close>, given the file at the storage path: \<open>new_registry\<close> is
  the three assignments, and the registry of \<open>ExecutionRegistry()\<close> without a path.
\<close>

definition new_registry :: "string option \<Rightarrow> ExecutionRegistry" where
  "new_registry sp =
     \<lparr> records = [], storage_path = (if sp = Some [] then None else sp), next_execution_id = 1 \<rparr>"

definition ExecutionRegistry_init ::
  "(string \<Rightarrow> int option) \<Rightarrow> string option \<Rightarrow> file_state \<Rightarrow> ExecutionRegistry" where
  "ExecutionRegistry_init int16 sp f =
     (let reg = new_registry sp
      in if storage_path reg \<noteq> None \<and> f \<noteq> Missing then load_records int16 f reg else reg)"

text \<open>
  \<open>ExecutionRegistry._save_records\<close>; \<open>now_iso\<close> is \<open>datetime.utcnow().isoformat()\<close>.
\<close>

definition save_records :: "string \<Rightarrow> ExecutionRegistry \<Rightarrow> file_state \<Rightarrow> file_state" where
  "save_records now_iso reg f =
     (case storage_path reg of
        None \<Rightarrow> f
      | Some p \<Rightarrow>
          Content (JObj [(''version'', JStr ''1.0''),
                         (''records'', JArr (map (\<lambda>kr. JObj (to_dict (snd kr))) (records reg))),
                         (''last_updated'', JStr now_iso)]))"

text \<open>
  Python's \<open>format(n, 'x')\<close>: lower-case hexadecimal without padding, with a leading
  minus sign for a negative number.
\<close>

definition hex_digit :: "nat \<Rightarrow> char" where
  "hex_digit d = ''0123456789abcdef'' ! d"

fun hex_nat :: "nat \<Rightarrow> string" where
  "hex_nat n = (if n < 16 then [hex_digit n] else hex_nat (n div 16) @ [hex_digit (n mod 16)])"

declare hex_nat.simps [simp del]

definition hex :: "int \<Rightarrow> string" where
  "hex i = (if i < 0 then CHR ''-'' # hex_nat (nat (- i)) else hex_nat (nat i))"

text \<open>\<open>int(x)\<close> on a float truncates towards zero.\<close>

definition py_int :: "real \<Rightarrow> int" where
  "py_int x = (if x \<ge> 0 then \<lfloor>x\<rfloor> else \<lceil>x\<rceil>)"

text \<open>
  The clock readings of one call: the successive values of \<open>time.time()\<close> and the string
  of \<open>datetime.utcnow().isoformat()\<close>.
\<close>

record clock =
  time_first :: real
  time_second :: real
  utcnow_iso :: string

text \<open>
  \<open>ExecutionRegistry._generate_execution_id\<close>. The product \<open>time.time() * 1000\<close> is taken
  exactly; the code rounds it to a float before truncating, which can move the timestamp
  by one at a millisecond boundary. The properties of the ids below hold for every
  timestamp.
\<close>

definition generate_execution_id :: "real \<Rightarrow> ExecutionRegistry \<Rightarrow> string \<times> ExecutionRegistry" where
  "generate_execution_id now reg =
     (let timestamp = py_int (now * 1000)
      in (''ex-'' @ hex timestamp @ ''-'' @ hex (next_execution_id reg),
          reg\<lparr> next_execution_id := next_execution_id reg + 1 \<rparr>))"

definition update_record ::
  "string \<Rightarrow> (ExecutionRecord \<Rightarrow> ExecutionRecord) \<Rightarrow> ExecutionRegistry \<Rightarrow> ExecutionRegistry" where
  "update_record i g reg =
     (case map_of (records reg) i of
        None \<Rightarrow> reg
      | Some r \<Rightarrow> reg\<lparr> records := AList.update i (g r) (records reg) \<rparr>)"

text \<open>\<open>ExecutionRegistry.start_execution\<close>\<close>

definition start_execution ::
  "clock \<Rightarrow> ExecutionRegistry \<times> file_state \<Rightarrow> string \<Rightarrow> string \<Rightarrow> dict option \<Rightarrow> dict option
     \<Rightarrow> string option \<Rightarrow> string \<times> (ExecutionRegistry \<times> file_state)" where
  "start_execution clk st kname dpath im ctx parent =
     (let (eid, reg1) = generate_execution_id (time_first clk) (fst st);
          r = \<lparr> execution_id = eid, kernel_name = kname, doc_path = dpath,
                start_time = time_second clk, end_time = None, status = RUNNING,
                input_metadata = or_empty im, output_value = None, error = None,
                context_map = or_empty ctx, quantum_seal = None,
                parent_execution_id = parent, child_executions = [], metrics = [] \<rparr>;
          reg2 = (case parent of
                    None \<Rightarrow> reg1
                  | Some p \<Rightarrow>
                      if p \<noteq> [] then update_record p (\<lambda>pr. pr\<lparr> child_executions := child_executions pr @ [eid] \<rparr>) reg1
                      else reg1);
          reg3 = reg2\<lparr> records := AList.update eid r (records reg2) \<rparr>
      in (eid, (reg3, save_records (utcnow_iso clk) reg3 (snd st))))"

text \<open>
  \<open>ExecutionRegistry._generate_quantum_seal\<close>; \<open>H v\<close> is the SHA-256 hex digest of
  \<open>json.dumps(v, sort_keys=True)\<close>.
\<close>

definition generate_quantum_seal :: "(json \<Rightarrow> string) \<Rightarrow> real \<Rightarrow> ExecutionRecord \<Rightarrow> string" where
  "generate_quantum_seal H now r =
     H (JObj [(''execution_id'', JStr (execution_id r)),
              (''kernel'', JStr (kernel_name r)),
              (''doc_path'', JStr (doc_path r)),
              (''start_time'', JNum (start_time r)),
              (''end_time'', opt_json JNum (end_time r)),
              (''input_hash'', JStr (H (JObj (input_metadata r)))),
              (''output_hash'', JStr (H (JObj (or_empty (output_value r))))),
              (''parent_id'', opt_json JStr (parent_execution_id r)),
              (''timestamp'', JNum now)])"

text \<open>
  \<open>ExecutionRegistry.complete_execution\<close>. The closing log line formats
  \<open>record.duration\<close> with \<open>:.2f\<close>, a \<open>TypeError\<close> when the duration is \<open>None\<close>; the
  record is changed and saved before that.
\<close>

definition complete_execution ::
  "(json \<Rightarrow> string) \<Rightarrow> clock \<Rightarrow> ExecutionRegistry \<times> file_state \<Rightarrow> string \<Rightarrow> dict \<Rightarrow> dict option
     \<Rightarrow> (exn + unit) \<times> (ExecutionRegistry \<times> file_state)" where
  "complete_execution H clk st eid out ms =
     (case map_of (records (fst st)) eid of
        None \<Rightarrow> (Inr (), st)
      | Some r \<Rightarrow>
          (let r1 = r\<lparr> status := COMPLETED, end_time := Some (time_first clk),
                       output_value := Some out, metrics := or_empty ms \<rparr>;
               r2 = r1\<lparr> quantum_seal := Some (generate_quantum_seal H (time_second clk) r1) \<rparr>;
               reg' = (fst st)\<lparr> records := AList.update eid r2 (records (fst st)) \<rparr>
           in (if duration r2 = None then Inl TypeError else Inr (),
               (reg', save_records (utcnow_iso clk) reg' (snd st)))))"

text \<open>\<open>ExecutionRegistry.fail_execution\<close>; \<open>err\<close> is \<open>str(error)\<close>.\<close>

definition fail_execution ::
  "clock \<Rightarrow> ExecutionRegistry \<times> file_state \<Rightarrow> string \<Rightarrow> string \<Rightarrow> dict option
     \<Rightarrow> ExecutionRegistry \<times> file_state" where
  "fail_execution clk st eid err ms =
     (case map_of (records (fst st)) eid of
        None \<Rightarrow> st
      | Some r \<Rightarrow>
          (let r' = r\<lparr> status := FAILED, end_time := Some (time_first clk),
                       error := Some err, metrics := or_empty ms \<rparr>;
               reg' = (fst st)\<lparr> records := AList.update eid r' (records (fst st)) \<rparr>
           in (reg', save_records (utcnow_iso clk) reg' (snd st))))"

text \<open>\<open>ExecutionRegistry.cancel_execution\<close>\<close>

definition cancel_execution ::
  "clock \<Rightarrow> ExecutionRegistry \<times> file_state \<Rightarrow> string \<Rightarrow> ExecutionRegistry \<times> file_state" where
  "cancel_execution clk st eid =
     (case map_of (records (fst st)) eid of
        None \<Rightarrow> st
      | Some r \<Rightarrow>
          if status r \<in> set [PENDING, RUNNING]
          then (let r' = r\<lparr> status := CANCELLED, end_time := Some (time_first clk) \<rparr>;
                    reg' = (fst st)\<lparr> records := AList.update eid r' (records (fst st)) \<rparr>
                in (reg', save_records (utcnow_iso clk) reg' (snd st)))
          else st)"

definition get_execution :: "ExecutionRegistry \<Rightarrow> string \<Rightarrow> ExecutionRecord option" where
  "get_execution reg eid = map_of (records reg) eid"

text \<open>
  \<open>ExecutionRegistry.get_execution_stats\<close>; the result dict is an association list in the
  order of the dict literal.
\<close>

definition get_execution_stats :: "ExecutionRegistry \<Rightarrow> dict" where
  "get_execution_stats reg =
     (if records reg = [] then []
      else
        (let rs = map snd (records reg);
             completed = filter (\<lambda>r. status r = COMPLETED) rs;
             failed = filter (\<lambda>r. status r = FAILED) rs;
             running = filter (\<lambda>r. status r = RUNNING) rs;
             pending = filter (\<lambda>r. status r = PENDING) rs;
             durations = map (\<lambda>r. the (duration r)) (filter (\<lambda>r. duration r \<noteq> None) completed)
         in [(''total'', JNum (real (length (records reg)))),
             (''completed'', JNum (real (length completed))),
             (''failed'', JNum (real (length failed))),
             (''running'', JNum (real (length running))),
             (''pending'', JNum (real (length pending))),
             (''avg_duration'',
                JNum (if durations \<noteq> [] then sum_list durations / real (length durations) else 0)),
             (''min_duration'', JNum (if durations \<noteq> [] then fold min (tl durations) (hd durations) else 0)),
             (''max_duration'', JNum (if durations \<noteq> [] then fold max (tl durations) (hd durations) else 0)),
             (''kernels_used'', JNum (real (card (set (map kernel_name rs))))),
             (''documents_processed'', JNum (real (card (set (map doc_path rs)))))]))"

text \<open>
  A run of \<open>start_execution\<close> calls on one registry, each with its clock readings and
  arguments; the result lists the ids returned, in call order.
\<close>

type_synonym start_call = "clock \<times> string \<times> string \<times> dict option \<times> dict option \<times> string option"

fun start_all ::
  "start_call list \<Rightarrow> ExecutionRegistry \<times> file_state \<Rightarrow> string list \<times> (ExecutionRegistry \<times> file_state)" where
  "start_all [] st = ([], st)"
| "start_all ((clk, kname, dpath, im, ctx, parent) # cs) st =
     (let (eid, st') = start_execution clk st kname dpath im ctx parent;
          (eids, st'') = start_all cs st'
      in (eid # eids, st''))"

section \<open>netsync_scrollchain.py\<close>

text \<open>
  The result message of \<open>sync_registry\<close>, with the value that the f-string embeds.
\<close>

datatype sync_msg =
    FailedToComputeHash
  | AlreadySynchronized json
  | Synchronized string
  | VerificationFailed
  | SynchronizationFailed exn

text \<open>
  \<open>ScrollChainSync._compute_registry_hash\<close>; \<open>H v\<close> is the SHA3-256 hex digest of
  \<open>json.dumps(v, sort_keys=True)\<close>. A missing or unparsable registry file gives the empty
  string.
\<close>

definition compute_registry_hash :: "(json \<Rightarrow> string) \<Rightarrow> file_state \<Rightarrow> string" where
  "compute_registry_hash H regf = (case regf of Content j \<Rightarrow> H j | _ \<Rightarrow> [])"

text \<open>
  Iterating over a JSON value: a list gives its elements, a dict its keys, a string its
  characters; anything else is not iterable.
\<close>

fun iter_json :: "json \<Rightarrow> exn + json list" where
  "iter_json (JArr xs) = Inr xs"
| "iter_json (JObj d) = Inr (map (\<lambda>kv. JStr (fst kv)) d)"
| "iter_json (JStr s) = Inr (map (\<lambda>c. JStr [c]) s)"
| "iter_json _ = Inl TypeError"

text \<open>\<open>scrollchain.get('entries', [])\<close>, iterated.\<close>

definition entries_iter :: "dict \<Rightarrow> exn + json list" where
  "entries_iter scrollchain =
     (case map_of scrollchain ''entries'' of None \<Rightarrow> Inr [] | Some v \<Rightarrow> iter_json v)"

text \<open>
  \<open>next((e for e in entries if e.get('registry_hash') == registry_hash), None)\<close>: the
  first entry carrying the hash; an element met before it that is no dict has no \<open>get\<close>.
\<close>

fun find_entry :: "string \<Rightarrow> json list \<Rightarrow> exn + json option" where
  "find_entry h [] = Inr None"
| "find_entry h (e # es) =
     (case e of
        JObj d \<Rightarrow> if map_of d ''registry_hash'' = Some (JStr h) then Inr (Some e) else find_entry h es
      | _ \<Rightarrow> Inl AttributeError)"

text \<open>\<open>any(e.get('registry_hash') == registry_hash for e in entries)\<close>\<close>

fun any_entry :: "string \<Rightarrow> json list \<Rightarrow> exn + bool" where
  "any_entry h [] = Inr False"
| "any_entry h (e # es) =
     (case e of
        JObj d \<Rightarrow> if map_of d ''registry_hash'' = Some (JStr h) then Inr True else any_entry h es
      | _ \<Rightarrow> Inl AttributeError)"

text \<open>\<open>ScrollChainSync.verify_sync\<close>: every exception gives \<open>False\<close>.\<close>

definition verify_sync :: "(json \<Rightarrow> string) \<Rightarrow> file_state \<Rightarrow> file_state \<Rightarrow> bool" where
  "verify_sync H regf scf =
     (let registry_hash = compute_registry_hash H regf
      in if registry_hash = [] then False
         else (case scf of
                 Content (JObj scrollchain) \<Rightarrow>
                   (case entries_iter scrollchain of
                      Inl e \<Rightarrow> False
                    | Inr es \<Rightarrow> (case any_entry registry_hash es of Inl e \<Rightarrow> False | Inr b \<Rightarrow> b))
               | _ \<Rightarrow> False))"

text \<open>
  The two statements that add the new entry: \<open>entries\<close> is created when absent, and
  \<open>append\<close> exists on a list only.
\<close>

definition append_entry :: "dict \<Rightarrow> json \<Rightarrow> exn + dict" where
  "append_entry scrollchain sync_entry =
     (case map_of scrollchain ''entries'' of
        None \<Rightarrow> Inr (AList.update ''entries'' (JArr [sync_entry]) scrollchain)
      | Some (JArr es) \<Rightarrow> Inr (AList.update ''entries'' (JArr (es @ [sync_entry])) scrollchain)
      | Some _ \<Rightarrow> Inl AttributeError)"

text \<open>
  The dict that \<open>sync_registry\<close> works on when the scrollchain file exists: its parsed
  content, or a new dict when the content is no JSON or no dict.
\<close>

definition scrollchain_of :: "file_state \<Rightarrow> dict" where
  "scrollchain_of scf =
     (case scf of
        Content (JObj d) \<Rightarrow> d
      | _ \<Rightarrow> [(''version'', JStr ''1.0''), (''entries'', JArr [])])"

definition sync_entry_of :: "string \<Rightarrow> string \<Rightarrow> string \<Rightarrow> json" where
  "sync_entry_of registry_hash timestamp abspath =
     JObj [(''registry_hash'', JStr registry_hash),
           (''timestamp'', JStr timestamp),
           (''registry_path'', JStr abspath)]"

text \<open>
  \<open>ScrollChainSync.sync_registry\<close>, on the registry file and the scrollchain file;
  \<open>timestamp\<close> is \<open>datetime.utcnow().isoformat()\<close> and \<open>abspath\<close> is
  \<open>os.path.abspath(self.registry_path)\<close>. The result holds the returned pair and the
  scrollchain file after the call. An exception inside the \<open>try\<close> is raised before the
  file is written, and gives \<open>(False, ...)\<close>.
\<close>

definition sync_registry ::
  "(json \<Rightarrow> string) \<Rightarrow> string \<Rightarrow> string \<Rightarrow> bool \<Rightarrow> file_state \<Rightarrow> file_state
     \<Rightarrow> (bool \<times> sync_msg) \<times> file_state" where
  "sync_registry H timestamp abspath force regf scf =
     (let registry_hash = compute_registry_hash H regf
      in if registry_hash = [] then ((False, FailedToComputeHash), scf)
         else
           (let sync_entry = sync_entry_of registry_hash timestamp abspath;
                verified = (\<lambda>scf'. if verify_sync H regf scf'
                                    then ((True, Synchronized timestamp), scf')
                                    else ((False, VerificationFailed), scf'));
                failed = (\<lambda>e. ((False, SynchronizationFailed e), scf))
            in case scf of
                 Missing \<Rightarrow>
                   verified (Content (JObj [(''version'', JStr ''1.0''),
                                            (''created_at'', JStr timestamp),
                                            (''entries'', JArr [sync_entry])]))
               | _ \<Rightarrow>
                   (let scrollchain = scrollchain_of scf
                    in case entries_iter scrollchain of
                         Inl e \<Rightarrow> failed e
                       | Inr es \<Rightarrow>
                           (case find_entry registry_hash es of
                              Inl e \<Rightarrow> failed e
                            | Inr (Some (JObj existing_entry)) \<Rightarrow>
                                if \<not> force
                                then (case map_of existing_entry ''timestamp'' of
                                        None \<Rightarrow> failed KeyError
                                      | Some t \<Rightarrow> ((True, AlreadySynchronized t), scf))
                                else (case append_entry scrollchain sync_entry of
                                        Inl e \<Rightarrow> failed e
                                      | Inr scrollchain' \<Rightarrow> verified (Content (JObj scrollchain')))
                            | Inr _ \<Rightarrow>
                                (case append_entry scrollchain sync_entry of
                                   Inl e \<Rightarrow> failed e
                                 | Inr scrollchain' \<Rightarrow> verified (Content (JObj scrollchain')))))))"

text \<open>The entries held by the scrollchain file, for counting what a call has appended.\<close>

definition log_entries :: "file_state \<Rightarrow> json list" where
  "log_entries scf =
     (case scf of
        Content (JObj d) \<Rightarrow> (case map_of d ''entries'' of Some (JArr es) \<Rightarrow> es | _ \<Rightarrow> [])
      | _ \<Rightarrow> [])"



section \<open>Example inputs\<close>

text \<open>A braid holding the documents \<open>a\<close> and \<open>b\<close> and no link.\<close>

definition two_docs :: "pylib \<Rightarrow> SemanticBraid" where
  "two_docs L =
     snd (add_document L (snd (add_document L SemanticBraid_init ''a'' ''a.md'' None))
            ''b'' ''b.md'' None)"

text \<open>
  The braid after \<open>add_document('a', 'a.md', {'title': 'A'})\<close> on the empty braid, written
  out: with an id and a title given, no library function is called.
\<close>

definition one_doc :: SemanticBraid where
  "one_doc =
     \<lparr> heap = [0 \<mapsto> \<lparr> node_id = ''a'', path = ''a.md'', node_metadata = [(''title'', JStr ''A'')],
                         links = [], embeddings = [], tags = {}, title = JStr ''A'',
                         doc_type = JStr ''document'' \<rparr>],
       next_ref = 1, nodes = [''a'' \<mapsto> 0], link_types = {}, tag_index = Map.empty \<rparr>"

text \<open>
  Five documents with the directional links \<open>A \<rightarrow> B\<close>, \<open>A \<rightarrow> C\<close>, \<open>A \<rightarrow> E\<close> and
  \<open>E \<rightarrow> D\<close>, created in this order with any positive number of free stack frames.
\<close>

definition star_docs :: "pylib \<Rightarrow> SemanticBraid" where
  "star_docs L =
     snd (add_document L (snd (add_document L (snd (add_document L (snd (add_document L
       (snd (add_document L SemanticBraid_init ''A'' ''A.md'' None))
        ''B'' ''B.md'' None)) ''C'' ''C.md'' None)) ''E'' ''E.md'' None)) ''D'' ''D.md'' None)"

definition star :: "pylib \<Rightarrow> nat \<Rightarrow> SemanticBraid" where
  "star L d =
     snd (link_documents (Suc d) (snd (link_documents (Suc d) (snd (link_documents (Suc d)
       (snd (link_documents (Suc d) (star_docs L) ''A'' ''B'' ''references'' 1 None))
        ''A'' ''C'' ''references'' 1 None)) ''A'' ''E'' ''references'' 1 None))
        ''E'' ''D'' ''references'' 1 None)"

text \<open>Clock readings one, two and three seconds after the epoch.\<close>

definition clock0 :: clock where
  "clock0 = \<lparr> time_first = 1, time_second = 1, utcnow_iso = ''1970-01-01T00:00:01'' \<rparr>"

definition clock1 :: clock where
  "clock1 = \<lparr> time_first = 2, time_second = 2, utcnow_iso = ''1970-01-01T00:00:02'' \<rparr>"

definition clock2 :: clock where
  "clock2 = \<lparr> time_first = 3, time_second = 3, utcnow_iso = ''1970-01-01T00:00:03'' \<rparr>"

text \<open>
  A registry stored at \<open>registry.json\<close> after one \<open>start_execution\<close>, and the same
  execution failed and then completed.
\<close>

definition started :: "string \<times> (ExecutionRegistry \<times> file_state)" where
  "started =
     start_execution clock0 (new_registry (Some ''registry.json''), Missing)
       ''note_kernel'' ''doc.md'' None None None"

definition failed_then_completed ::
  "(json \<Rightarrow> string) \<Rightarrow> (exn + unit) \<times> (ExecutionRegistry \<times> file_state)" where
  "failed_then_completed H =
     complete_execution H clock2
       (fail_execution clock1 (snd started) (fst started) ''boom'' None)
       (fst started) [(''ok'', JBool True)] None"

text \<open>
  One \<open>start_execution\<close> call at clock reading \<open>clock0\<close>; sixteen of them in a row fall
  into the same millisecond.
\<close>

definition call0 :: start_call where
  "call0 = (clock0, ''note_kernel'', ''doc.md'', None, None, None)"


definition digest0 :: "json \<Rightarrow> string" where
  "digest0 j = ''a7''"




text \<open>
  The registry of \<open>started\<close> after a second execution is started at \<open>clock1\<close> and the
  first one is completed at \<open>clock2\<close>.
\<close>

definition one_completed_one_running :: "ExecutionRegistry \<times> file_state" where
  "one_completed_one_running =
     snd (complete_execution digest0 clock2
       (snd (start_execution clock1 (snd started) ''legal_kernel'' ''law.md'' None None None))
       (fst started) [(''ok'', JBool True)] None)"

section \<open>Properties of the relationship graph\<close>

lemma DocumentLink_init_symmetric:
  "lt \<in> set [''similar_to'', ''related_to'']
     \<Longrightarrow> DocumentLink_init d h src tgt lt w md = Inl RecursionError"
  by (induction d arbitrary: src tgt) (simp_all del: set_simps)

lemma DocumentLink_init_Inr:
  assumes "DocumentLink_init d h src tgt lt w md = Inr (l, h')"
  shows "l = \<lparr> source = src, target = tgt, link_type = lt, weight = max 0 (min 1 w),
               link_metadata = or_empty md \<rparr>"
    and "h' = h" and "lt \<notin> set [''similar_to'', ''related_to'']" and "d \<noteq> 0"
proof -
  from assms show "d \<noteq> 0" by (cases d) simp_all
  then obtain d' where d: "d = Suc d'" by (cases d) simp_all
  from assms show sym: "lt \<notin> set [''similar_to'', ''related_to'']"
    using DocumentLink_init_symmetric [of lt d h src tgt w md] by auto
  from assms sym d
  show "l = \<lparr> source = src, target = tgt, link_type = lt, weight = max 0 (min 1 w),
               link_metadata = or_empty md \<rparr>" and "h' = h"
    by (simp_all del: set_simps)
qed

lemma one_doc_added:
  "snd (add_document L SemanticBraid_init ''a'' ''a.md'' (Some [(''title'', JStr ''A'')])) = one_doc"
  by (simp add: add_document_def SemanticBraid_init_def DocumentNode_init_def or_empty_def
      Let_def one_doc_def)

lemmas braid_defs =
  two_docs_def star_def star_docs_def link_documents_def get_document_def add_document_def
  SemanticBraid_init_def add_link_def Let_def DocumentNode_init_def append_link_def
  or_empty_def get_shortest_path_def links_of_def

text \<open>
  Claim C1 says that creating an edge of a symmetric type also creates exactly one reverse
  edge, whose construction triggers no further construction, so that edge construction
  terminates. The code does not do this: for \<open>similar_to\<close> and \<open>related_to\<close> the constructor
  calls itself again for the reverse edge with the same type, whatever the number of stack
  frames it is allowed, so it ends in \<open>RecursionError\<close> and constructs no edge at all.
  \<open>link_documents\<close> on two existing documents then raises, having only registered the type.
\<close>

theorem symmetric_link_recursion_unbounded:
  "DocumentLink_init d h src tgt ''similar_to'' w md = Inl RecursionError
   \<and> DocumentLink_init d h src tgt ''related_to'' w md = Inl RecursionError
   \<and> link_documents d (two_docs L) ''a'' ''b'' ''similar_to'' (1/2) None
       = (Inl RecursionError, (two_docs L)\<lparr> link_types := {''similar_to''} \<rparr>)"
  by (simp add: braid_defs DocumentLink_init_symmetric)

text \<open>
  Claim C7: for every weight \<open>w\<close> given to edge creation, the weight stored on the
  constructed link is \<open>max 0 (min 1 w)\<close>, which lies between 0 and 1. Whenever the
  constructor returns a link its weight is the clamped one, and for a directional link type
  it does return one, with any positive number of stack frames.
\<close>

theorem weight_clamped:
  "(\<forall>l h'. DocumentLink_init d h src tgt lt w md = Inr (l, h')
       \<longrightarrow> weight l = max 0 (min 1 w) \<and> 0 \<le> weight l \<and> weight l \<le> 1)
   \<and> (lt \<notin> set [''similar_to'', ''related_to'']
       \<longrightarrow> (\<exists>l. DocumentLink_init (Suc d) h src tgt lt w md = Inr (l, h)
                \<and> weight l = max 0 (min 1 w)))"
proof (intro conjI allI impI)
  fix l h'
  assume "DocumentLink_init d h src tgt lt w md = Inr (l, h')"
  then have l: "l = \<lparr> source = src, target = tgt, link_type = lt, weight = max 0 (min 1 w),
                      link_metadata = or_empty md \<rparr>"
    by (rule DocumentLink_init_Inr)
  show "weight l = max 0 (min 1 w)" by (simp add: l)
  show "0 \<le> weight l" by (simp add: l)
  show "weight l \<le> 1" by (simp add: l)
next
  assume "lt \<notin> set [''similar_to'', ''related_to'']"
  then show "\<exists>l. DocumentLink_init (Suc d) h src tgt lt w md = Inr (l, h)
                \<and> weight l = max 0 (min 1 w)"
    by (simp del: set_simps)
qed

theorem weight_clamped_witness:
  "''references'' \<notin> set [''similar_to'', ''related_to'']
   \<and> (\<exists>l. DocumentLink_init (Suc 0) Map.empty 0 1 ''references'' (7/2) None = Inr (l, Map.empty)
        \<and> weight l = 1)
   \<and> (\<exists>l. DocumentLink_init (Suc 0) Map.empty 0 1 ''references'' (- 2) None = Inr (l, Map.empty)
        \<and> weight l = 0)"
  using weight_clamped [of 0 Map.empty 0 1 "''references''" "7/2" None]
    weight_clamped [of 0 Map.empty 0 1 "''references''" "- 2" None]
  by simp

text \<open>
  Claim C9: for a document id that is not in the graph, \<open>find_related_documents\<close> returns
  the empty list whatever the type filter and minimum weight, leaves the graph as it was,
  and raises nothing (the function has no failing branch).
\<close>

theorem find_related_unknown_id:
  "get_document b doc_id = None \<Longrightarrow> find_related_documents b doc_id lt min_weight = ([], b)"
  by (simp add: find_related_documents_def)

theorem find_related_unknown_id_witness:
  "get_document one_doc ''c'' = None
   \<and> find_related_documents one_doc ''c'' (Some ''references'') (1/2) = ([], one_doc)"
proof -
  have h: "get_document one_doc ''c'' = None" by (simp add: get_document_def one_doc_def)
  show ?thesis using h find_related_unknown_id [OF h] by simp
qed

lemma add_document_tag_index: "tag_index (snd (add_document L b i p md)) = tag_index b"
  by (simp add: add_document_def DocumentNode_init_def Let_def)

text \<open>
  Claim C4 says that the tags carried by the metadata of an added document are indexed at
  insertion, so that \<open>find_documents_by_tag\<close> then returns the node. The code does not do
  this: the node constructor never reads tags from the metadata, the loop of
  \<open>add_document\<close> over the new node's tags runs over the empty set, and the tag index stays
  as it was. After adding a document whose metadata carries the tag \<open>x\<close>, the lookup of
  \<open>x\<close> is empty.
\<close>

theorem metadata_tags_not_indexed:
  "find_documents_by_tag
     (snd (add_document L SemanticBraid_init ''d1'' ''a.md'' (Some [(''tags'', JArr [JStr ''x''])])))
     ''x'' = {}"
  by (simp add: find_documents_by_tag_def add_document_tag_index SemanticBraid_init_def)

text \<open>
  Claim C5 says that the hop budget of the shortest-path search goes down once per level of
  the breadth-first search and so bounds the depth of the path. The code takes one from
  the budget for every dequeued node: in the star-shaped example the target \<open>D\<close> is two
  hops from \<open>A\<close> (through \<open>E\<close>), yet with a budget of 2 the search stops after dequeuing
  \<open>A\<close>, \<open>B\<close> and \<open>C\<close> and finds nothing; with a budget of 3 it finds the two-hop path.
\<close>

theorem hop_budget_spent_per_dequeued_node:
  "get_shortest_path (star L d) ''A'' ''D'' 2 = None
   \<and> get_shortest_path (star L d) ''A'' ''D'' 3 = Some [0, 3, 4]"
  by (simp add: braid_defs bfs.simps)

section \<open>Properties of the execution ledger\<close>

lemma status_of_name_status_name: "status_of_name (status_name s) = Some s"
  by (cases s) (simp_all add: status_of_name_def)

lemma from_dict_to_dict: "from_dict (to_dict r) = Inl TypeError"
  by (simp add: from_dict_def to_dict_def status_of_name_status_name field_names_def)

lemma load_record_to_dict: "load_record int16 (JObj (to_dict r)) reg = reg"
  by (simp add: load_record_def from_dict_to_dict)

lemma fold_load_record_saved:
  "fold (load_record int16) (map (\<lambda>kr. JObj (to_dict (snd kr))) rs) reg = reg"
  by (induction rs) (simp_all add: load_record_to_dict)

lemma reload_saved:
  "ExecutionRegistry_init int16 (storage_path reg) (save_records now reg f)
     = new_registry (storage_path reg)"
  by (cases "storage_path reg")
     (simp_all add: ExecutionRegistry_init_def new_registry_def save_records_def load_records_def
        fold_load_record_saved Let_def split: file_state.splits json.splits option.splits)

lemma hex_1000: "hex 1000 = ''3e8''"
  by (simp add: hex_def hex_nat.simps hex_digit_def)

lemma hex_1: "hex 1 = ''1''"
  by (simp add: hex_def hex_nat.simps hex_digit_def)

lemma hex_2: "hex 2 = ''2''"
  by (simp add: hex_def hex_nat.simps hex_digit_def)

lemma hex_2000: "hex 2000 = ''7d0''"
  by (simp add: hex_def hex_nat.simps hex_digit_def)

lemmas registry_defs =
  started_def failed_then_completed_def start_execution_def generate_execution_id_def Let_def
  py_int_def hex_1000 hex_1 new_registry_def split_def fail_execution_def complete_execution_def
  get_execution_def clock0_def clock1_def clock2_def or_empty_def save_records_def

lemma started_id: "fst started = ''ex-3e8-1''"
  by (simp add: registry_defs)

text \<open>
  Claim C2 says that saving a registry and loading it again gives the same records and a
  counter beyond every loaded id. The code does not do this: \<open>to_dict\<close> adds the key
  \<open>duration\<close>, which is no parameter of the record's constructor, so \<open>from_dict\<close> raises
  \<open>TypeError\<close> on every saved record, the loader logs and skips each of them, and the
  reloaded registry is the empty one with counter 1, whatever was saved. The registry
  \<open>started\<close> holds one record and is stored; its reload holds none.
\<close>

theorem reload_drops_every_record:
  "from_dict (to_dict r) = Inl TypeError
   \<and> ExecutionRegistry_init int16 (storage_path reg) (save_records now reg f)
       = new_registry (storage_path reg)
   \<and> map fst (records (fst (snd started))) = [''ex-3e8-1'']
   \<and> records (ExecutionRegistry_init int16 (Some ''registry.json'') (snd (snd started))) = []"
proof -
  have a: "map fst (records (fst (snd started))) = [''ex-3e8-1'']"
    by (simp add: registry_defs)
  have "snd (snd started) = save_records (utcnow_iso clock0) (fst (snd started)) Missing"
    by (simp add: started_def start_execution_def Let_def split_def)
  moreover have "storage_path (fst (snd started)) = Some ''registry.json''"
    by (simp add: registry_defs update_record_def)
  ultimately have b: "ExecutionRegistry_init int16 (Some ''registry.json'') (snd (snd started))
      = new_registry (Some ''registry.json'')"
    using reload_saved [of int16 "fst (snd started)" "utcnow_iso clock0" Missing] by simp
  show ?thesis
    by (simp add: from_dict_to_dict reload_saved a b) (simp add: new_registry_def)
qed

lemma complete_execution_any_status:
  "map_of (records (fst st)) eid = Some r \<Longrightarrow>
   map_option status (get_execution (fst (snd (complete_execution H clk st eid out ms))) eid)
     = Some COMPLETED"
  by (simp add: complete_execution_def get_execution_def Let_def update_conv')

lemma fail_execution_any_status:
  "map_of (records (fst st)) eid = Some r \<Longrightarrow>
   map_option status (get_execution (fst (fail_execution clk st eid err ms)) eid) = Some FAILED"
  by (simp add: fail_execution_def get_execution_def Let_def update_conv')

lemma cancel_execution_terminal:
  "map_of (records (fst st)) eid = Some r \<Longrightarrow> status r \<in> {COMPLETED, FAILED, CANCELLED} \<Longrightarrow>
   cancel_execution clk st eid = st"
  by (auto simp: cancel_execution_def)

text \<open>
  Claim C3 says that a record in a terminal status is never changed again by
  \<open>complete_execution\<close>, \<open>fail_execution\<close> or \<open>cancel_execution\<close>. Only
  \<open>cancel_execution\<close> checks the status; the other two do not. The execution of
  \<open>started\<close> is failed, which is terminal, and a later \<open>complete_execution\<close> on its id
  turns it into a completed record with an output and a seal.
\<close>

theorem completion_overwrites_failed_record:
  "map_option status
     (get_execution (fst (fail_execution clock1 (snd started) (fst started) ''boom'' None))
        ''ex-3e8-1'') = Some FAILED
   \<and> map_option status (get_execution (fst (snd (failed_then_completed H))) ''ex-3e8-1'')
       = Some COMPLETED
   \<and> map_option output_value (get_execution (fst (snd (failed_then_completed H))) ''ex-3e8-1'')
       = Some (Some [(''ok'', JBool True)])"
  by (simp add: registry_defs)

lemma fold_min_Min: "ds \<noteq> [] \<Longrightarrow> fold min (tl ds) (hd ds) = Min (set ds)" for ds :: "real list"
  using Min.set_eq_fold [of "hd ds" "tl ds"] by (cases ds) auto

lemma fold_max_Max: "ds \<noteq> [] \<Longrightarrow> fold max (tl ds) (hd ds) = Max (set ds)" for ds :: "real list"
  using Max.set_eq_fold [of "hd ds" "tl ds"] by (cases ds) auto

lemma count_status: "count_list (map status rs) s = length (filter (\<lambda>r. status r = s) rs)"
  by (induction rs) auto

lemma durations_map_filter:
  "map (\<lambda>r. the (duration r)) (filter (\<lambda>r. duration r \<noteq> None) rs) = List.map_filter duration rs"
  by (induction rs) (auto simp: List.map_filter_def)

lemma one_completed_one_running_records:
  "map snd (records (fst one_completed_one_running)) =
    [\<lparr> execution_id = ''ex-3e8-1'', kernel_name = ''note_kernel'', doc_path = ''doc.md'',
        start_time = 1, end_time = Some 3, status = COMPLETED, input_metadata = [],
        output_value = Some [(''ok'', JBool True)], error = None, context_map = [],
        quantum_seal = Some ''a7'', parent_execution_id = None, child_executions = [],
        metrics = [] \<rparr>,
     \<lparr> execution_id = ''ex-7d0-2'', kernel_name = ''legal_kernel'', doc_path = ''law.md'',
        start_time = 2, end_time = None, status = RUNNING, input_metadata = [],
        output_value = None, error = None, context_map = [],
        quantum_seal = None, parent_execution_id = None, child_executions = [],
        metrics = [] \<rparr>]"
  by (simp add: one_completed_one_running_def registry_defs hex_2000 hex_2 generate_quantum_seal_def digest0_def)


text \<open>
  Claim C10: \<open>get_execution_stats\<close> on a registry without records returns the empty
  mapping, with no key at all, and only then; on a registry with records it returns the
  full aggregate under its ten keys: the number of records, the number of records in each
  of the statuses completed, failed, running and pending, the average, minimum and maximum
  of the durations of the completed records that have one (0 when there is none), and the
  numbers of distinct kernel names and of distinct document paths.
\<close>

theorem stats_empty_or_full:
  fixes reg
  defines "rs \<equiv> map snd (records reg)"
  defines "ds \<equiv> List.map_filter duration (filter (\<lambda>r. status r = COMPLETED) rs)"
  shows "(get_execution_stats reg = [] \<longleftrightarrow> records reg = [])
   \<and> map fst (get_execution_stats reg) =
       (if records reg = [] then []
        else [''total'', ''completed'', ''failed'', ''running'', ''pending'', ''avg_duration'',
              ''min_duration'', ''max_duration'', ''kernels_used'', ''documents_processed''])
   \<and> (records reg \<noteq> [] \<longrightarrow>
        get_execution_stats reg =
          [(''total'', JNum (real (length rs))),
           (''completed'', JNum (real (count_list (map status rs) COMPLETED))),
           (''failed'', JNum (real (count_list (map status rs) FAILED))),
           (''running'', JNum (real (count_list (map status rs) RUNNING))),
           (''pending'', JNum (real (count_list (map status rs) PENDING))),
           (''avg_duration'', JNum (if ds = [] then 0 else sum_list ds / real (length ds))),
           (''min_duration'', JNum (if ds = [] then 0 else Min (set ds))),
           (''max_duration'', JNum (if ds = [] then 0 else Max (set ds))),
           (''kernels_used'', JNum (real (card (kernel_name ` set rs)))),
           (''documents_processed'', JNum (real (card (doc_path ` set rs))))])"
proof (intro conjI impI)
  show "(get_execution_stats reg = []) = (records reg = [])"
    by (simp add: get_execution_stats_def Let_def)
  show "map fst (get_execution_stats reg) =
       (if records reg = [] then []
        else [''total'', ''completed'', ''failed'', ''running'', ''pending'', ''avg_duration'',
              ''min_duration'', ''max_duration'', ''kernels_used'', ''documents_processed''])"
    by (simp add: get_execution_stats_def Let_def)
next
  assume ne: "records reg \<noteq> []"
  define ds' where "ds' = map (\<lambda>r. the (duration r))
      (filter (\<lambda>r. duration r \<noteq> None) (filter (\<lambda>r. status r = COMPLETED) rs))"
  have ds': "ds' = ds" unfolding ds'_def ds_def by (rule durations_map_filter)
  have len: "length (records reg) = length rs" by (simp add: rs_def)
  have body: "get_execution_stats reg =
          [(''total'', JNum (real (length (records reg)))),
           (''completed'', JNum (real (length (filter (\<lambda>r. status r = COMPLETED) rs)))),
           (''failed'', JNum (real (length (filter (\<lambda>r. status r = FAILED) rs)))),
           (''running'', JNum (real (length (filter (\<lambda>r. status r = RUNNING) rs)))),
           (''pending'', JNum (real (length (filter (\<lambda>r. status r = PENDING) rs)))),
           (''avg_duration'', JNum (if ds' \<noteq> [] then sum_list ds' / real (length ds') else 0)),
           (''min_duration'', JNum (if ds' \<noteq> [] then fold min (tl ds') (hd ds') else 0)),
           (''max_duration'', JNum (if ds' \<noteq> [] then fold max (tl ds') (hd ds') else 0)),
           (''kernels_used'', JNum (real (card (set (map kernel_name rs))))),
           (''documents_processed'', JNum (real (card (set (map doc_path rs)))))]"
    unfolding get_execution_stats_def Let_def rs_def ds'_def by (simp only: ne if_False)
  show "get_execution_stats reg =
          [(''total'', JNum (real (length rs))),
           (''completed'', JNum (real (count_list (map status rs) COMPLETED))),
           (''failed'', JNum (real (count_list (map status rs) FAILED))),
           (''running'', JNum (real (count_list (map status rs) RUNNING))),
           (''pending'', JNum (real (count_list (map status rs) PENDING))),
           (''avg_duration'', JNum (if ds = [] then 0 else sum_list ds / real (length ds))),
           (''min_duration'', JNum (if ds = [] then 0 else Min (set ds))),
           (''max_duration'', JNum (if ds = [] then 0 else Max (set ds))),
           (''kernels_used'', JNum (real (card (kernel_name ` set rs)))),
           (''documents_processed'', JNum (real (card (doc_path ` set rs))))]"
    unfolding body ds' len
    by (cases "ds = []") (simp_all add: count_status fold_min_Min fold_max_Max)
qed

theorem stats_empty_or_full_witness:
  "get_execution_stats (new_registry None) = []
   \<and> records (fst one_completed_one_running) \<noteq> []
   \<and> get_execution_stats (fst one_completed_one_running) =
       [(''total'', JNum 2), (''completed'', JNum 1), (''failed'', JNum 0),
        (''running'', JNum 1), (''pending'', JNum 0), (''avg_duration'', JNum 2),
        (''min_duration'', JNum 2), (''max_duration'', JNum 2), (''kernels_used'', JNum 2),
        (''documents_processed'', JNum 2)]"
proof -
  have a: "records (new_registry None) = []" by (simp add: new_registry_def)
  have b: "records (fst one_completed_one_running) \<noteq> []"
    using one_completed_one_running_records by auto
  have e: "get_execution_stats (new_registry None) = []"
    using stats_empty_or_full [of "new_registry None"] a by simp
  have "get_execution_stats (fst one_completed_one_running) =
          [(''total'', JNum (real (length (map snd (records (fst one_completed_one_running)))))),
           (''completed'', JNum (real (count_list (map status (map snd (records (fst one_completed_one_running)))) COMPLETED))),
           (''failed'', JNum (real (count_list (map status (map snd (records (fst one_completed_one_running)))) FAILED))),
           (''running'', JNum (real (count_list (map status (map snd (records (fst one_completed_one_running)))) RUNNING))),
           (''pending'', JNum (real (count_list (map status (map snd (records (fst one_completed_one_running)))) PENDING))),
           (''avg_duration'', JNum (if List.map_filter duration (filter (\<lambda>r. status r = COMPLETED) (map snd (records (fst one_completed_one_running)))) = [] then 0
              else sum_list (List.map_filter duration (filter (\<lambda>r. status r = COMPLETED) (map snd (records (fst one_completed_one_running)))))
                   / real (length (List.map_filter duration (filter (\<lambda>r. status r = COMPLETED) (map snd (records (fst one_completed_one_running)))))))),
           (''min_duration'', JNum (if List.map_filter duration (filter (\<lambda>r. status r = COMPLETED) (map snd (records (fst one_completed_one_running)))) = [] then 0
              else Min (set (List.map_filter duration (filter (\<lambda>r. status r = COMPLETED) (map snd (records (fst one_completed_one_running)))))))),
           (''max_duration'', JNum (if List.map_filter duration (filter (\<lambda>r. status r = COMPLETED) (map snd (records (fst one_completed_one_running)))) = [] then 0
              else Max (set (List.map_filter duration (filter (\<lambda>r. status r = COMPLETED) (map snd (records (fst one_completed_one_running)))))))),
           (''kernels_used'', JNum (real (card (kernel_name ` set (map snd (records (fst one_completed_one_running))))))),
           (''documents_processed'', JNum (real (card (doc_path ` set (map snd (records (fst one_completed_one_running)))))))]"
    by (rule mp [OF conjunct2 [OF conjunct2 [OF stats_empty_or_full]] b])
  then have v: "get_execution_stats (fst one_completed_one_running) =
       [(''total'', JNum 2), (''completed'', JNum 1), (''failed'', JNum 0),
        (''running'', JNum 1), (''pending'', JNum 0), (''avg_duration'', JNum 2),
        (''min_duration'', JNum 2), (''max_duration'', JNum 2), (''kernels_used'', JNum 2),
        (''documents_processed'', JNum 2)]"
    unfolding one_completed_one_running_records
    by (simp add: List.map_filter_def duration_def)
  show ?thesis using e b v by simp
qed

subsection \<open>Execution ids\<close>

lemma hex_nat_nonempty: "hex_nat n \<noteq> []"
  by (subst hex_nat.simps) simp

lemma hex_digit_code: "d < 16 \<Longrightarrow> of_char (hex_digit d) = (if d < 10 then 48 + d else 87 + d)"
proof -
  assume "d < 16"
  then have "d = 0 \<or> d = 1 \<or> d = 2 \<or> d = 3 \<or> d = 4 \<or> d = 5 \<or> d = 6 \<or> d = 7 \<or> d = 8
     \<or> d = 9 \<or> d = 10 \<or> d = 11 \<or> d = 12 \<or> d = 13 \<or> d = 14 \<or> d = 15" by arith
  then show ?thesis by (elim disjE) (simp_all add: hex_digit_def)
qed

lemma hex_digit_mono: "a < b \<Longrightarrow> b < 16 \<Longrightarrow> hex_digit a < hex_digit b"
  by (simp add: less_char_def hex_digit_code)

lemma hex_digit_inj: "a < 16 \<Longrightarrow> b < 16 \<Longrightarrow> hex_digit a = hex_digit b \<Longrightarrow> a = b"
  by (metis hex_digit_mono less_irrefl linorder_neqE_nat)

lemma hex_digit_not_dash: "d < 16 \<Longrightarrow> hex_digit d \<noteq> CHR ''-''"
proof
  assume "d < 16" and "hex_digit d = CHR ''-''"
  then have "(if d < 10 then 48 + d else 87 + d) = (of_char (CHR ''-'') :: nat)"
    using hex_digit_code [of d] by simp
  then show False by (simp split: if_splits)
qed

lemma dash_notin_hex_nat: "CHR ''-'' \<notin> set (hex_nat n)"
proof (induction n rule: hex_nat.induct)
  case (1 n)
  show ?case
  proof (cases "n < 16")
    case True
    then show ?thesis by (subst hex_nat.simps) (simp add: hex_digit_not_dash hex_digit_not_dash [THEN not_sym])
  next
    case False
    then show ?thesis using 1 by (subst hex_nat.simps) (simp add: hex_digit_not_dash hex_digit_not_dash [THEN not_sym])
  qed
qed

lemma hex_nat_inj: "hex_nat a = hex_nat b \<Longrightarrow> a = b"
proof (induction a arbitrary: b rule: hex_nat.induct)
  case (1 a)
  show ?case
  proof (cases "a < 16")
    case True
    show ?thesis
    proof (cases "b < 16")
      case True
      with \<open>a < 16\<close> 1(2) show ?thesis
        by (simp add: hex_nat.simps [of a] hex_nat.simps [of b] hex_digit_inj)
    next
      case False
      with \<open>a < 16\<close> 1(2) show ?thesis
        by (simp add: hex_nat.simps [of a] hex_nat.simps [of b] hex_nat_nonempty hex_nat_nonempty [THEN not_sym])
    qed
  next
    case False
    show ?thesis
    proof (cases "b < 16")
      case True
      with \<open>\<not> a < 16\<close> 1(2) show ?thesis
        by (simp add: hex_nat.simps [of a] hex_nat.simps [of b] hex_nat_nonempty hex_nat_nonempty [THEN not_sym])
    next
      case bF: False
      from False bF 1(2) have "hex_nat (a div 16) = hex_nat (b div 16)"
        and "hex_digit (a mod 16) = hex_digit (b mod 16)"
        by (simp_all add: hex_nat.simps [of a] hex_nat.simps [of b])
      then have "a div 16 = b div 16" and "a mod 16 = b mod 16"
        using 1(1) [OF False] by (simp_all add: hex_digit_inj)
      then show ?thesis by (metis div_mult_mod_eq)
    qed
  qed
qed

lemma lex_prefix: "x < y \<Longrightarrow> u @ x < u @ y" for u :: string
  by (induction u) simp_all

lemma lex_same_length: "length u = length v \<Longrightarrow> u < v \<Longrightarrow> u @ s < v @ t" for u :: string
  by (induction u v rule: list_induct2) auto

lemma hex_nat_less:
  "length (hex_nat a) = length (hex_nat b) \<Longrightarrow> a < b \<Longrightarrow> hex_nat a < hex_nat b"
proof (induction a arbitrary: b rule: hex_nat.induct)
  case (1 a)
  show ?case
  proof (cases "b < 16")
    case True
    with 1(3) show ?thesis
      by (simp add: hex_nat.simps [of a] hex_nat.simps [of b] hex_digit_mono)
  next
    case bF: False
    show ?thesis
    proof (cases "a < 16")
      case True
      with bF 1(2) show ?thesis
        by (simp add: hex_nat.simps [of a] hex_nat.simps [of b] hex_nat_nonempty hex_nat_nonempty [THEN not_sym])
    next
      case False
      from False bF 1(2) have len: "length (hex_nat (a div 16)) = length (hex_nat (b div 16))"
        by (simp add: hex_nat.simps [of a] hex_nat.simps [of b])
      from 1(3) have "a div 16 < b div 16 \<or> (a div 16 = b div 16 \<and> a mod 16 < b mod 16)"
        by (metis div_mult_mod_eq less_imp_le_nat linorder_neqE_nat div_le_mono nat_add_left_cancel_less not_less)
      then show ?thesis
      proof
        assume "a div 16 < b div 16"
        then have "hex_nat (a div 16) < hex_nat (b div 16)" using 1(1) [OF False len] by simp
        with len False bF show ?thesis
          by (simp add: hex_nat.simps [of a] hex_nat.simps [of b] lex_same_length)
      next
        assume "a div 16 = b div 16 \<and> a mod 16 < b mod 16"
        with False bF show ?thesis
          by (simp add: hex_nat.simps [of a] hex_nat.simps [of b] lex_prefix hex_digit_mono)
      qed
    qed
  qed
qed

lemma last_segment_id: "last_segment (p @ ''-'' @ hex_nat m) = hex_nat m"
proof -
  have "takeWhile (\<lambda>c. c \<noteq> CHR ''-'') (rev (hex_nat m) @ CHR ''-'' # rev p) = rev (hex_nat m)"
    using dash_notin_hex_nat [of m] by (subst takeWhile_append2) auto
  then show ?thesis by (simp add: last_segment_def)
qed

lemma update_record_counter: "next_execution_id (update_record i g reg) = next_execution_id reg"
  by (simp add: update_record_def split: option.splits)

lemma start_execution_id:
  "fst (start_execution clk st k d im ctx par) =
     ''ex-'' @ hex (py_int (time_first clk * 1000)) @ ''-'' @ hex (next_execution_id (fst st))"
  by (simp add: start_execution_def generate_execution_id_def Let_def split_def)

lemma start_execution_counter:
  "next_execution_id (fst (snd (start_execution clk st k d im ctx par))) = next_execution_id (fst st) + 1"
  by (simp add: start_execution_def generate_execution_id_def Let_def split_def update_record_counter
      split: option.splits)

lemma start_all_length: "length (fst (start_all cs st)) = length cs"
proof (induction cs arbitrary: st)
  case Nil
  show ?case by simp
next
  case (Cons c cs)
  obtain clk k d im ctx par where c: "c = (clk, k, d, im, ctx, par)"
    using prod_cases6 by blast
  show ?case by (simp add: c split_def Let_def Cons.IH)
qed

lemma start_all_nth:
  "i < length cs \<Longrightarrow>
   fst (start_all cs st) ! i =
     ''ex-'' @ hex (py_int (time_first (fst (cs ! i)) * 1000)) @ ''-''
       @ hex (next_execution_id (fst st) + int i)"
proof (induction cs arbitrary: st i)
  case Nil
  then show ?case by simp
next
  case (Cons c cs)
  obtain clk k d im ctx par where c: "c = (clk, k, d, im, ctx, par)"
    using prod_cases6 by blast
  show ?case
  proof (cases i)
    case 0
    then show ?thesis by (simp add: c split_def Let_def start_execution_id)
  next
    case (Suc i')
    with Cons.prems have "i' < length cs" by simp
    from Cons.IH [OF this, of "snd (start_execution clk st k d im ctx par)"] Suc
    show ?thesis
      by (simp add: c split_def Let_def start_execution_counter add.assoc)
  qed
qed

lemma id_neq:
  assumes "0 \<le> a" and "0 \<le> b" and "a \<noteq> b"
  shows "p @ ''-'' @ hex a \<noteq> q @ ''-'' @ hex b"
proof
  assume "p @ ''-'' @ hex a = q @ ''-'' @ hex b"
  then have "last_segment (p @ ''-'' @ hex_nat (nat a)) = last_segment (q @ ''-'' @ hex_nat (nat b))"
    using assms by (simp add: hex_def)
  then have "hex_nat (nat a) = hex_nat (nat b)" by (simp only: last_segment_id)
  then have "nat a = nat b" by (rule hex_nat_inj)
  with assms show False by simp
qed

lemma start_all_distinct:
  assumes "1 \<le> next_execution_id (fst st)"
  shows "distinct (fst (start_all cs st))"
proof -
  have "fst (start_all cs st) ! i \<noteq> fst (start_all cs st) ! j"
    if "i < length cs" "j < length cs" "i \<noteq> j" for i j
  proof -
    have "(''ex-'' @ hex (py_int (time_first (fst (cs ! i)) * 1000))) @ ''-''
            @ hex (next_execution_id (fst st) + int i)
          \<noteq> (''ex-'' @ hex (py_int (time_first (fst (cs ! j)) * 1000))) @ ''-''
            @ hex (next_execution_id (fst st) + int j)"
      using assms that by (intro id_neq) simp_all
    then show ?thesis using that by (simp add: start_all_nth)
  qed
  then show ?thesis by (simp add: distinct_conv_nth start_all_length)
qed

lemma start_all_ordered:
  assumes n: "1 \<le> next_execution_id (fst st)"
    and ij: "i < j" "j < length cs"
    and ts: "py_int (time_first (fst (cs ! i)) * 1000) = py_int (time_first (fst (cs ! j)) * 1000)"
    and len: "length (fst (start_all cs st) ! i) = length (fst (start_all cs st) ! j)"
  shows "fst (start_all cs st) ! i < fst (start_all cs st) ! j"
proof -
  let ?a = "nat (next_execution_id (fst st) + int i)"
  let ?b = "nat (next_execution_id (fst st) + int j)"
  have ha: "hex (next_execution_id (fst st) + int i) = hex_nat ?a"
    and hb: "hex (next_execution_id (fst st) + int j) = hex_nat ?b"
    using n by (simp_all add: hex_def)
  from ij have i: "i < length cs" by simp
  from len ts have "length (hex_nat ?a) = length (hex_nat ?b)"
    using ij i by (simp add: start_all_nth ha hb)
  moreover have "?a < ?b" using n ij by simp
  ultimately have "hex_nat ?a < hex_nat ?b" by (rule hex_nat_less)
  then show ?thesis
    using ij i ts by (simp add: start_all_nth ha hb lex_prefix)
qed


lemma load_record_counter:
  "1 \<le> next_execution_id reg \<Longrightarrow> 1 \<le> next_execution_id (load_record int16 v reg)"
  by (auto simp: load_record_def Let_def split: json.splits sum.splits option.splits)

lemma fold_load_record_counter:
  "1 \<le> next_execution_id reg \<Longrightarrow> 1 \<le> next_execution_id (fold (load_record int16) vs reg)"
  by (induction vs arbitrary: reg) (simp_all add: load_record_counter)

lemma ExecutionRegistry_init_counter: "1 \<le> next_execution_id (ExecutionRegistry_init int16 sp f)"
  by (auto simp: ExecutionRegistry_init_def load_records_def new_registry_def Let_def
      fold_load_record_counter split: option.splits file_state.splits json.splits)

lemma complete_execution_counter:
  "next_execution_id (fst (snd (complete_execution H clk st eid out ms))) = next_execution_id (fst st)"
  by (simp add: complete_execution_def Let_def split: option.splits)

lemma fail_execution_counter:
  "next_execution_id (fst (fail_execution clk st eid err ms)) = next_execution_id (fst st)"
  by (simp add: fail_execution_def Let_def split: option.splits)

lemma cancel_execution_counter:
  "next_execution_id (fst (cancel_execution clk st eid)) = next_execution_id (fst st)"
  by (simp add: cancel_execution_def Let_def split: option.splits)

lemma hex_15: "hex 15 = ''f''"
  by (simp add: hex_def hex_nat.simps hex_digit_def)

lemma hex_16: "hex 16 = ''10''"
  by (simp add: hex_def hex_nat.simps hex_digit_def)

text \<open>
  Claim C6 says that of two ids generated by \<open>start_execution\<close> in the same millisecond
  the earlier one sorts lexically before the later one, and that all generated ids are
  pairwise distinct. The first part fails: the counter is written in hexadecimal without
  padding, so the fifteenth id ends in \<open>f\<close> and the sixteenth in \<open>10\<close>, and the later id
  sorts first.
\<close>

theorem id_order_counterexample:
  "fst (start_all (replicate 16 call0) (new_registry None, Missing)) ! 14 = ''ex-3e8-f''
   \<and> fst (start_all (replicate 16 call0) (new_registry None, Missing)) ! 15 = ''ex-3e8-10''
   \<and> \<not> (fst (start_all (replicate 16 call0) (new_registry None, Missing)) ! 14
          < fst (start_all (replicate 16 call0) (new_registry None, Missing)) ! 15)"
proof -
  have a: "fst (start_all (replicate 16 call0) (new_registry None, Missing)) ! 14 = ''ex-3e8-f''"
    by (simp add: start_all_nth call0_def clock0_def py_int_def hex_1000 hex_15 new_registry_def)
  have b: "fst (start_all (replicate 16 call0) (new_registry None, Missing)) ! 15 = ''ex-3e8-10''"
    by (simp add: start_all_nth call0_def clock0_def py_int_def hex_1000 hex_16 new_registry_def)
  show ?thesis by (simp add: a b)
qed

text \<open>
  Claim C6 as amended: in every run of \<open>start_execution\<close> calls on a registry (whose
  counter is at least 1, as it is from its creation on), all generated ids are pairwise
  distinct, and of two ids with the same millisecond timestamp and the same length (their
  counters have the same number of hexadecimal digits) the earlier one sorts lexically
  before the later one.
\<close>

theorem ids_distinct_and_ordered_at_equal_length:
  assumes "1 \<le> next_execution_id (fst st)"
  shows "distinct (fst (start_all cs st))
    \<and> (\<forall>i j. i < j \<and> j < length cs
          \<and> py_int (time_first (fst (cs ! i)) * 1000) = py_int (time_first (fst (cs ! j)) * 1000)
          \<and> length (fst (start_all cs st) ! i) = length (fst (start_all cs st) ! j)
          \<longrightarrow> fst (start_all cs st) ! i < fst (start_all cs st) ! j)"
  using assms start_all_distinct [of st cs] start_all_ordered [of st _ _ cs] by blast

theorem ids_distinct_and_ordered_at_equal_length_witness:
  "1 \<le> next_execution_id (fst (new_registry None, Missing))
   \<and> fst (start_all [call0, call0] (new_registry None, Missing)) = [''ex-3e8-1'', ''ex-3e8-2'']
   \<and> distinct (fst (start_all [call0, call0] (new_registry None, Missing)))
   \<and> fst (start_all [call0, call0] (new_registry None, Missing)) ! 0
       < fst (start_all [call0, call0] (new_registry None, Missing)) ! 1"
proof -
  have n: "1 \<le> next_execution_id (fst (new_registry None, Missing))"
    by (simp add: new_registry_def)
  have ids: "fst (start_all [call0, call0] (new_registry None, Missing)) = [''ex-3e8-1'', ''ex-3e8-2'']"
    by (simp add: call0_def split_def Let_def start_execution_id start_execution_counter
        clock0_def py_int_def hex_1000 hex_1 hex_2 new_registry_def)
  from ids_distinct_and_ordered_at_equal_length [OF n, of "[call0, call0]"]
  have d: "distinct (fst (start_all [call0, call0] (new_registry None, Missing)))"
    and o: "\<And>i j. i < j \<and> j < length [call0, call0]
          \<and> py_int (time_first (fst ([call0, call0] ! i)) * 1000)
              = py_int (time_first (fst ([call0, call0] ! j)) * 1000)
          \<and> length (fst (start_all [call0, call0] (new_registry None, Missing)) ! i)
              = length (fst (start_all [call0, call0] (new_registry None, Missing)) ! j)
          \<Longrightarrow> fst (start_all [call0, call0] (new_registry None, Missing)) ! i
              < fst (start_all [call0, call0] (new_registry None, Missing)) ! j"
    by blast+
  have "fst (start_all [call0, call0] (new_registry None, Missing)) ! 0
       < fst (start_all [call0, call0] (new_registry None, Missing)) ! 1"
    by (rule o) (simp add: ids)
  with n ids d show ?thesis by simp
qed

section \<open>Properties of the chain sync\<close>

lemma find_entry_Some:
  "find_entry h es = Inr (Some e) \<Longrightarrow> \<exists>d. e = JObj d \<and> map_of d ''registry_hash'' = Some (JStr h)"
  by (induction es) (auto split: json.splits if_splits)

lemma any_entry_find_entry:
  "any_entry h es = (case find_entry h es of Inl e \<Rightarrow> Inl e | Inr r \<Rightarrow> Inr (r \<noteq> None))"
  by (induction es) (auto split: json.splits)

lemma find_entry_append:
  "find_entry h es = Inr None \<Longrightarrow>
   find_entry h (es @ [sync_entry_of h ts ap]) = Inr (Some (sync_entry_of h ts ap))"
  by (induction es) (auto simp: sync_entry_of_def split: json.splits if_splits)

lemma entries_iter_append:
  "append_entry sc e = Inr sc' \<Longrightarrow> entries_iter sc = Inr es \<Longrightarrow> entries_iter sc' = Inr (es @ [e])"
  by (auto simp: append_entry_def entries_iter_def update_conv' split: option.splits json.splits)

lemma log_entries_append:
  "scf \<noteq> Missing \<Longrightarrow> append_entry (scrollchain_of scf) e = Inr sc' \<Longrightarrow>
   log_entries (Content (JObj sc')) = log_entries scf @ [e]"
  by (auto simp: append_entry_def log_entries_def scrollchain_of_def update_conv'
      split: option.splits json.splits file_state.splits)

lemma verify_after_append:
  assumes "compute_registry_hash H regf \<noteq> []"
    and "entries_iter sc = Inr es"
    and "find_entry (compute_registry_hash H regf) es = Inr None"
    and "append_entry sc (sync_entry_of (compute_registry_hash H regf) ts ap) = Inr sc'"
  shows "verify_sync H regf (Content (JObj sc'))"
  using assms entries_iter_append [OF assms(4) assms(2)] find_entry_append [OF assms(3), of ts ap]
  by (simp add: verify_sync_def any_entry_find_entry)

lemma verify_unsynced:
  assumes "scf \<noteq> Missing" and "entries_iter (scrollchain_of scf) = Inr es"
    and "find_entry (compute_registry_hash H regf) es = Inr None"
  shows "\<not> verify_sync H regf scf"
  using assms
  by (auto simp: verify_sync_def any_entry_find_entry scrollchain_of_def Let_def
      split: file_state.splits json.splits sum.splits)

lemma verify_synced:
  assumes "entries_iter (scrollchain_of scf) = Inr es"
    and "find_entry (compute_registry_hash H regf) es = Inr (Some e)"
    and "compute_registry_hash H regf \<noteq> []"
  shows "verify_sync H regf scf"
  using assms
  by (auto simp: verify_sync_def any_entry_find_entry scrollchain_of_def Let_def entries_iter_def
      split: file_state.splits json.splits sum.splits)

lemma sync_no_hash:
  "compute_registry_hash H regf = [] \<Longrightarrow>
   sync_registry H ts ap force regf scf = ((False, FailedToComputeHash), scf)"
  by (simp add: sync_registry_def)

lemma sync_missing:
  "compute_registry_hash H regf \<noteq> [] \<Longrightarrow>
   sync_registry H ts ap force regf Missing =
     ((True, Synchronized ts),
      Content (JObj [(''version'', JStr ''1.0''), (''created_at'', JStr ts),
                     (''entries'', JArr [sync_entry_of (compute_registry_hash H regf) ts ap])]))"
  by (simp add: sync_registry_def Let_def verify_sync_def entries_iter_def sync_entry_of_def)

lemma sync_iter_fail:
  "compute_registry_hash H regf \<noteq> [] \<Longrightarrow> scf \<noteq> Missing \<Longrightarrow>
   entries_iter (scrollchain_of scf) = Inl e \<Longrightarrow>
   sync_registry H ts ap force regf scf = ((False, SynchronizationFailed e), scf)"
  by (cases scf) (simp_all add: sync_registry_def Let_def)

lemma sync_find_fail:
  "compute_registry_hash H regf \<noteq> [] \<Longrightarrow> scf \<noteq> Missing \<Longrightarrow>
   entries_iter (scrollchain_of scf) = Inr es \<Longrightarrow>
   find_entry (compute_registry_hash H regf) es = Inl e \<Longrightarrow>
   sync_registry H ts ap force regf scf = ((False, SynchronizationFailed e), scf)"
  by (cases scf) (simp_all add: sync_registry_def Let_def)

lemma sync_existing:
  "compute_registry_hash H regf \<noteq> [] \<Longrightarrow> scf \<noteq> Missing \<Longrightarrow>
   entries_iter (scrollchain_of scf) = Inr es \<Longrightarrow>
   find_entry (compute_registry_hash H regf) es = Inr (Some (JObj ee)) \<Longrightarrow>
   sync_registry H ts ap False regf scf =
     (case map_of ee ''timestamp'' of
        None \<Rightarrow> ((False, SynchronizationFailed KeyError), scf)
      | Some t \<Rightarrow> ((True, AlreadySynchronized t), scf))"
  by (cases scf) (simp_all add: sync_registry_def Let_def split: option.splits)

lemma sync_append:
  assumes "compute_registry_hash H regf \<noteq> []" and "scf \<noteq> Missing"
    and "entries_iter (scrollchain_of scf) = Inr es"
    and "find_entry (compute_registry_hash H regf) es = Inr None"
  shows "sync_registry H ts ap force regf scf =
     (case append_entry (scrollchain_of scf) (sync_entry_of (compute_registry_hash H regf) ts ap) of
        Inl e \<Rightarrow> ((False, SynchronizationFailed e), scf)
      | Inr sc' \<Rightarrow> ((True, Synchronized ts), Content (JObj sc')))"
proof (cases "append_entry (scrollchain_of scf) (sync_entry_of (compute_registry_hash H regf) ts ap)")
  case (Inl e)
  with assms show ?thesis by (cases scf) (simp_all add: sync_registry_def Let_def)
next
  case (Inr sc')
  from verify_after_append [OF assms(1) assms(3) assms(4) Inr]
  have "verify_sync H regf (Content (JObj sc'))" .
  with assms Inr show ?thesis by (cases scf) (simp_all add: sync_registry_def Let_def)
qed


lemma append_entry_fail: "append_entry sc e = Inl x \<Longrightarrow> append_entry sc e' = Inl x"
  by (auto simp: append_entry_def split: option.splits json.splits)

lemma sync_twice:
  fixes H ts1 ts2 ap regf scf
  defines "r1 \<equiv> sync_registry H ts1 ap False regf scf"
  defines "r2 \<equiv> sync_registry H ts2 ap False regf (snd r1)"
  shows "snd r2 = snd r1
    \<and> fst (fst r2) = fst (fst r1)
    \<and> (fst (fst r1) \<longrightarrow>
         log_entries (snd r2) =
           (if verify_sync H regf scf then log_entries scf
            else log_entries scf @ [sync_entry_of (compute_registry_hash H regf) ts1 ap]))
    \<and> (\<not> fst (fst r1) \<longrightarrow> snd r1 = scf)"
proof (cases "compute_registry_hash H regf = []")
  case True
  then show ?thesis by (simp add: r1_def r2_def sync_no_hash)
next
  case h: False
  let ?h = "compute_registry_hash H regf"
  let ?e1 = "sync_entry_of ?h ts1 ap"
  show ?thesis
  proof (cases "scf = Missing")
    case True
    let ?f1 = "Content (JObj [(''version'', JStr ''1.0''), (''created_at'', JStr ts1),
                     (''entries'', JArr [?e1])])"
    have r1: "r1 = ((True, Synchronized ts1), ?f1)"
      using h True by (simp add: r1_def sync_missing)
    have it: "entries_iter (scrollchain_of ?f1) = Inr [?e1]"
      by (simp add: scrollchain_of_def entries_iter_def)
    have fe: "find_entry ?h [?e1] = Inr (Some (JObj [(''registry_hash'', JStr ?h), (''timestamp'', JStr ts1), (''registry_path'', JStr ap)]))"
      by (simp add: sync_entry_of_def)
    have r2: "r2 = ((True, AlreadySynchronized (JStr ts1)), ?f1)"
      unfolding r2_def r1 snd_conv
      by (subst sync_existing [OF h _ it fe]) simp_all
    have nv: "\<not> verify_sync H regf scf" using True by (simp add: verify_sync_def)
    show ?thesis using True nv by (simp add: r1 r2 log_entries_def)
  next
    case nm: False
    show ?thesis
    proof (cases "entries_iter (scrollchain_of scf)")
      case (Inl e)
      then show ?thesis using h nm by (simp add: r1_def r2_def sync_iter_fail)
    next
      case (Inr es)
      show ?thesis
      proof (cases "find_entry ?h es")
        case (Inl e)
        then show ?thesis using h nm Inr by (simp add: r1_def r2_def sync_find_fail)
      next
        case fe: (Inr found)
        show ?thesis
        proof (cases found)
          case None
          show ?thesis
          proof (cases "append_entry (scrollchain_of scf) ?e1")
            case (Inl e)
            then show ?thesis
              using h nm Inr fe None append_entry_fail [of "scrollchain_of scf" ?e1 e]
              by (simp add: r1_def r2_def sync_append)
          next
            case sc': (Inr sc')
            have r1: "r1 = ((True, Synchronized ts1), Content (JObj sc'))"
              using h nm Inr fe None sc' by (simp add: r1_def sync_append)
            have it: "entries_iter (scrollchain_of (Content (JObj sc'))) = Inr (es @ [?e1])"
              using entries_iter_append [OF sc' Inr] by (simp add: scrollchain_of_def)
            have fe': "find_entry ?h (es @ [?e1]) = Inr (Some (JObj [(''registry_hash'', JStr ?h), (''timestamp'', JStr ts1), (''registry_path'', JStr ap)]))"
              using find_entry_append [of ?h es ts1 ap] fe None by (simp add: sync_entry_of_def)
            have r2: "r2 = ((True, AlreadySynchronized (JStr ts1)), Content (JObj sc'))"
              unfolding r2_def r1 snd_conv
              by (subst sync_existing [OF h _ it fe']) simp_all
            have nv: "\<not> verify_sync H regf scf"
              using verify_unsynced [OF nm Inr] fe None by simp
            show ?thesis using nv log_entries_append [OF nm sc'] by (simp add: r1 r2)
          qed
        next
          case (Some e)
          then obtain ee where e: "e = JObj ee" using find_entry_Some fe by blast
          have v: "verify_sync H regf scf" using verify_synced [OF Inr _ h] fe Some by simp
          have s: "\<And>ts. sync_registry H ts ap False regf scf =
             (case map_of ee ''timestamp'' of
                None \<Rightarrow> ((False, SynchronizationFailed KeyError), scf)
              | Some t \<Rightarrow> ((True, AlreadySynchronized t), scf))"
            using sync_existing [OF h nm Inr] fe Some e by simp
          show ?thesis using v by (cases "map_of ee ''timestamp''") (simp_all add: r1_def r2_def s)
        qed
      qed
    qed
  qed
qed












end
